theory Spec2Isabelle
  imports Main "HOL-Library.Word" "HOL-Library.Sublist"
begin

section \<open>Go values used by the service and the handler\<close>

text \<open>
  A Go \<open>string\<close> is a sequence of bytes: \<open>len\<close> counts bytes and \<open>s[i:j]\<close> cuts at
  byte offsets, so \<open>string\<close> is \<^typ>\<open>char list\<close> and \<open>len\<close> is \<^const>\<open>length\<close>.

  A value of Go's interface \<open>error\<close> is modelled by what \<open>mapError\<close> and the services
  observe of it: the text its \<open>Error()\<close> method returns, and whether
  \<open>errors.Is(err, repository.ErrNotFound)\<close> holds for it (the sentinel is declared in
  \<open>internal/repository\<close>; any error wrapping it with \<open>%w\<close> satisfies the test whatever
  its text is). A possibly-nil error is an \<open>error option\<close>, \<open>None\<close> being \<open>nil\<close>.
\<close>

record error =
  Error :: string
  Is_ErrNotFound :: bool

text \<open>\<open>fmt.Errorf(msg)\<close> with a format that has no verb: a fresh error with that text,
  wrapping nothing.\<close>

definition fmt_Errorf :: "string \<Rightarrow> error" where
  "fmt_Errorf msg = \<lparr>Error = msg, Is_ErrNotFound = False\<rparr>"

text \<open>\<open>errors.Is(err, repository.ErrNotFound)\<close>; a nil error is no error at all.\<close>

definition errors_Is_ErrNotFound :: "error option \<Rightarrow> bool" where
  "errors_Is_ErrNotFound err = (case err of None \<Rightarrow> False | Some e \<Rightarrow> Is_ErrNotFound e)"

section \<open>Substring search of \<open>internal/grpc/tenant_handler.go\<close>\<close>

text \<open>
  The slice expression \<open>s[lo:hi]\<close> of a string panics at run time unless
  \<open>0 \<le> lo \<le> hi \<le> len(s)\<close>; \<open>None\<close> stands for that panic.
\<close>

definition string_slice :: "string \<Rightarrow> nat \<Rightarrow> nat \<Rightarrow> string option" where
  "string_slice s lo hi = (if lo \<le> hi \<and> hi \<le> length s then Some (take (hi - lo) (drop lo s)) else None)"

text \<open>
  \<open>containsAt\<close>: the loop \<open>for i := 0; i <= len(s)-len(substr); i++\<close>. The bound is a
  signed \<open>int\<close>, negative when \<open>substr\<close> is the longer string, so it is computed in
  \<^typ>\<open>int\<close>. \<open>containsAt_loop\<close> is the loop entered with the counter at \<open>i\<close>.
\<close>

function containsAt_loop :: "string \<Rightarrow> string \<Rightarrow> nat \<Rightarrow> bool option" where
  "containsAt_loop s substr i =
     (if int i \<le> int (length s) - int (length substr) then
        (case string_slice s i (i + length substr) of
           None \<Rightarrow> None
         | Some w \<Rightarrow> if w = substr then Some True else containsAt_loop s substr (i + 1))
      else Some False)"
  by pat_completeness auto
termination
  by (relation "measure (\<lambda>(s, substr, i). length s + 1 - i)") auto

declare containsAt_loop.simps [simp del]

definition containsAt :: "string \<Rightarrow> string \<Rightarrow> bool option" where
  "containsAt s substr = containsAt_loop s substr 0"

text \<open>
  \<open>contains\<close>: \<open>len(s) >= len(substr) && (s == substr || len(s) > 0 && containsAt(s, substr))\<close>,
  with the short-circuit evaluation of \<open>&&\<close> and \<open>||\<close> written out.
\<close>

definition contains :: "string \<Rightarrow> string \<Rightarrow> bool option" where
  "contains s substr =
     (if length s \<ge> length substr then
        (if s = substr then Some True
         else if length s > 0 then containsAt s substr
         else Some False)
      else Some False)"

text \<open>\<open>containsAny\<close>: the variadic \<open>substrs\<close> is a list, scanned in order.\<close>

fun containsAny :: "string \<Rightarrow> string list \<Rightarrow> bool option" where
  "containsAny s [] = Some False"
| "containsAny s (substr # substrs) =
     (case contains s substr of
        None \<Rightarrow> None
      | Some True \<Rightarrow> Some True
      | Some False \<Rightarrow> containsAny s substrs)"

section \<open>gRPC status errors\<close>

text \<open>The status codes of \<open>google.golang.org/grpc/codes\<close>, in their numeric order.\<close>

datatype codes =
  OK | Canceled | Unknown | InvalidArgument | DeadlineExceeded | NotFound | AlreadyExists
  | PermissionDenied | ResourceExhausted | FailedPrecondition | Aborted | OutOfRange
  | Unimplemented | Internal | Unavailable | DataLoss | Unauthenticated

text \<open>
  What the caller of an RPC receives on failure: a status with a code and a message.
  \<open>status.Error(c, msg)\<close> builds it (it is only ever called here with a code other
  than \<open>OK\<close>).
\<close>

record Status =
  Code :: codes
  Message :: string

definition status_Error :: "codes \<Rightarrow> string \<Rightarrow> Status" where
  "status_Error c msg = \<lparr>Code = c, Message = msg\<rparr>"

text \<open>
  \<open>mapError\<close>. \<open>None\<close> as a result is a run-time panic: \<open>err.Error()\<close> on a nil
  interface value (the last \<open>return\<close> is reached with a nil \<open>err\<close>, since the
  validation test is guarded by \<open>err != nil\<close> and the last line is not), or a slice
  out of range inside \<open>containsAny\<close>.
\<close>

definition mapError :: "error option \<Rightarrow> Status option" where
  "mapError err =
     (if errors_Is_ErrNotFound err then
        (case err of None \<Rightarrow> None | Some e \<Rightarrow> Some (status_Error NotFound (Error e)))
      else
        (case err of
           None \<Rightarrow> None
         | Some e \<Rightarrow>
             (case containsAny (Error e) [''required'', ''invalid''] of
                None \<Rightarrow> None
              | Some True \<Rightarrow> Some (status_Error InvalidArgument (Error e))
              | Some False \<Rightarrow> Some (status_Error Internal (Error e)))))"

section \<open>Repository types\<close>

text \<open>
  \<open>time.Time\<close> is an instant; only its identity matters here. Go's \<open>int\<close> is taken as
  64 bits wide, \<open>int32\<close> is 32 bits wide; both are signed.
\<close>

type_synonym time = int
type_synonym go_int = "64 word"
type_synonym int32 = "32 word"

text \<open>
  \<open>repository.Relationship\<close>. The service reads and writes its fields \<open>TenantID\<close>,
  \<open>SourceNodeID\<close>, \<open>TargetNodeID\<close>, \<open>RelationshipType\<close> and \<open>Data\<close>.
\<close>

text \<open>
  Modelled from the spec: the declaration of the struct is in \<open>internal/repository\<close>,
  which is not part of this development; its remaining fields \<open>ID\<close>, \<open>CreatedAt\<close> and
  \<open>UpdatedAt\<close> are the identifier and the two timestamps that the data model of the
  specification (section 3) gives a relationship.
\<close>

record Relationship =
  ID :: string
  TenantID :: string
  SourceNodeID :: string
  TargetNodeID :: string
  RelationshipType :: string
  Data :: string
  CreatedAt :: time
  UpdatedAt :: time

text \<open>\<open>repository.ListOptions\<close> and \<open>repository.ListResult\<close>, with the fields the source
  reads and writes.\<close>

record ListOptions =
  PageSize :: go_int
  PageToken :: string

record ListResult =
  NextPageToken :: string
  TotalCount :: go_int

text \<open>
  \<open>repository.RelationshipRepository\<close> is an interface: the service works with any
  implementation. An implementation is a record of its five methods, each a function
  of the storage state \<open>'st\<close> that returns its result and the new state. A Go result
  pair \<open>(value, err)\<close> is a sum, \<open>Inl\<close> the error; the lone \<open>error\<close> of \<open>Delete\<close> is
  an \<open>error option\<close>. The \<open>context.Context\<close> argument carries cancellation only and is
  left out.
\<close>

record 'st RelationshipRepository =
  repo_Create :: "Relationship \<Rightarrow> 'st \<Rightarrow> (error + Relationship) \<times> 'st"
  repo_GetByID :: "string \<Rightarrow> string \<Rightarrow> 'st \<Rightarrow> (error + Relationship) \<times> 'st"
  repo_Update :: "Relationship \<Rightarrow> 'st \<Rightarrow> (error + Relationship) \<times> 'st"
  repo_Delete :: "string \<Rightarrow> string \<Rightarrow> 'st \<Rightarrow> error option \<times> 'st"
  repo_List :: "string \<Rightarrow> string \<Rightarrow> string \<Rightarrow> string \<Rightarrow> ListOptions \<Rightarrow> 'st
                  \<Rightarrow> (error + Relationship list \<times> ListResult) \<times> 'st"

section \<open>\<open>RelationshipService\<close> of \<open>internal/service/relationship_service.go\<close>\<close>

text \<open>
  The parameter \<open>id\<close> of the source is written \<open>id'\<close>.
  The struct literal of \<open>Create\<close> sets five fields; the others keep their zero values
  (the empty string, the zero instant).
\<close>

definition RelationshipService_Create ::
  "'st RelationshipRepository \<Rightarrow> string \<Rightarrow> string \<Rightarrow> string \<Rightarrow> string \<Rightarrow> string \<Rightarrow> 'st
     \<Rightarrow> (error + Relationship) \<times> 'st" where
  "RelationshipService_Create repo tenantID sourceNodeID targetNodeID relType data st =
     (if tenantID = '''' then (Inl (fmt_Errorf ''tenant_id is required''), st)
      else if sourceNodeID = '''' then (Inl (fmt_Errorf ''source_node_id is required''), st)
      else if targetNodeID = '''' then (Inl (fmt_Errorf ''target_node_id is required''), st)
      else if relType = '''' then (Inl (fmt_Errorf ''relationship_type is required''), st)
      else
        repo_Create repo
          \<lparr>ID = '''', TenantID = tenantID, SourceNodeID = sourceNodeID,
           TargetNodeID = targetNodeID, RelationshipType = relType, Data = data,
           CreatedAt = 0, UpdatedAt = 0\<rparr> st)"

definition RelationshipService_GetByID ::
  "'st RelationshipRepository \<Rightarrow> string \<Rightarrow> string \<Rightarrow> 'st \<Rightarrow> (error + Relationship) \<times> 'st" where
  "RelationshipService_GetByID repo tenantID id' st =
     (if id' = '''' then (Inl (fmt_Errorf ''id is required''), st)
      else if tenantID = '''' then (Inl (fmt_Errorf ''tenant_id is required''), st)
      else repo_GetByID repo tenantID id' st)"

text \<open>
  \<open>Update\<close> assigns to the fields of the entity \<open>GetByID\<close> returned and hands the same
  entity to the repository's \<open>Update\<close>; with values instead of pointers that is a
  record update.
\<close>

definition RelationshipService_Update ::
  "'st RelationshipRepository \<Rightarrow> string \<Rightarrow> string \<Rightarrow> string \<Rightarrow> string \<Rightarrow> 'st
     \<Rightarrow> (error + Relationship) \<times> 'st" where
  "RelationshipService_Update repo tenantID id' relType data st =
     (if id' = '''' then (Inl (fmt_Errorf ''id is required''), st)
      else if tenantID = '''' then (Inl (fmt_Errorf ''tenant_id is required''), st)
      else
        (case repo_GetByID repo tenantID id' st of
           (Inl err, st1) \<Rightarrow> (Inl err, st1)
         | (Inr rel, st1) \<Rightarrow>
             (let rel1 = (if relType \<noteq> '''' then rel\<lparr>RelationshipType := relType\<rparr> else rel);
                  rel2 = (if data \<noteq> '''' then rel1\<lparr>Data := data\<rparr> else rel1)
              in repo_Update repo rel2 st1)))"

definition RelationshipService_Delete ::
  "'st RelationshipRepository \<Rightarrow> string \<Rightarrow> string \<Rightarrow> 'st \<Rightarrow> error option \<times> 'st" where
  "RelationshipService_Delete repo tenantID id' st =
     (if id' = '''' then (Some (fmt_Errorf ''id is required''), st)
      else if tenantID = '''' then (Some (fmt_Errorf ''tenant_id is required''), st)
      else repo_Delete repo tenantID id' st)"

text \<open>\<open>int(pageSize)\<close> widens the signed 32-bit value to \<open>int\<close>.\<close>

definition RelationshipService_List ::
  "'st RelationshipRepository \<Rightarrow> string \<Rightarrow> string \<Rightarrow> string \<Rightarrow> string \<Rightarrow> int32 \<Rightarrow> string \<Rightarrow> 'st
     \<Rightarrow> (error + Relationship list \<times> ListResult) \<times> 'st" where
  "RelationshipService_List repo tenantID sourceNodeID targetNodeID relType pageSize pageToken st =
     (if tenantID = '''' then (Inl (fmt_Errorf ''tenant_id is required''), st)
      else
        repo_List repo tenantID sourceNodeID targetNodeID relType
          \<lparr>PageSize = scast pageSize, PageToken = pageToken\<rparr> st)"

subsection \<open>Observing the repository calls of the service\<close>

text \<open>
  To state which repository methods an operation invokes, and with which arguments, a
  repository is wrapped so that every call is appended to a log kept beside the
  storage state; the call itself is passed on unchanged.
\<close>

datatype repo_call =
  Call_Create Relationship
  | Call_GetByID string string
  | Call_Update Relationship
  | Call_Delete string string
  | Call_List string string string string ListOptions

definition recording ::
  "'st RelationshipRepository \<Rightarrow> ('st \<times> repo_call list) RelationshipRepository" where
  "recording repo =
     \<lparr>repo_Create = (\<lambda>rel (st, calls).
        case repo_Create repo rel st of (r, st1) \<Rightarrow> (r, (st1, calls @ [Call_Create rel]))),
      repo_GetByID = (\<lambda>tenantID id' (st, calls).
        case repo_GetByID repo tenantID id' st of
          (r, st1) \<Rightarrow> (r, (st1, calls @ [Call_GetByID tenantID id']))),
      repo_Update = (\<lambda>rel (st, calls).
        case repo_Update repo rel st of (r, st1) \<Rightarrow> (r, (st1, calls @ [Call_Update rel]))),
      repo_Delete = (\<lambda>tenantID id' (st, calls).
        case repo_Delete repo tenantID id' st of
          (r, st1) \<Rightarrow> (r, (st1, calls @ [Call_Delete tenantID id']))),
      repo_List = (\<lambda>tenantID sourceNodeID targetNodeID relType opts (st, calls).
        case repo_List repo tenantID sourceNodeID targetNodeID relType opts st of
          (r, st1) \<Rightarrow>
            (r, (st1, calls @ [Call_List tenantID sourceNodeID targetNodeID relType opts])))\<rparr>"

text \<open>
  A one-row in-memory implementation of the interface: a test double on which the
  service is run at concrete inputs (the implementations over PostgreSQL are in
  \<open>internal/repository\<close>, which is not part of this development, and every general
  statement below holds for any implementation). The state is the row, if any, and the
  clock. \<open>GetByID\<close>, \<open>Update\<close> and \<open>Delete\<close> fail with an error wrapping \<open>ErrNotFound\<close> when
  the row is absent or belongs to another tenant; \<open>Update\<close> overwrites the row and
  refreshes \<open>UpdatedAt\<close>; \<open>Create\<close> stamps both timestamps; \<open>List\<close> returns the row when
  the filters admit it, in one page.
\<close>

definition not_found :: error where
  "not_found = \<lparr>Error = ''relationship not found'', Is_ErrNotFound = True\<rparr>"

definition row_matches :: "string \<Rightarrow> string \<Rightarrow> Relationship \<Rightarrow> bool" where
  "row_matches tenantID id' r = (TenantID r = tenantID \<and> ID r = id')"

definition one_row_repo :: "(Relationship option \<times> time) RelationshipRepository" where
  "one_row_repo =
     \<lparr>repo_Create = (\<lambda>rel (row, now).
        (let r = rel\<lparr>ID := ''r1'', CreatedAt := now, UpdatedAt := now\<rparr>
         in (Inr r, (Some r, now + 1)))),
      repo_GetByID = (\<lambda>tenantID id' (row, now).
        case row of
          None \<Rightarrow> (Inl not_found, (row, now))
        | Some r \<Rightarrow>
            if row_matches tenantID id' r then (Inr r, (row, now))
            else (Inl not_found, (row, now))),
      repo_Update = (\<lambda>rel (row, now).
        case row of
          None \<Rightarrow> (Inl not_found, (row, now))
        | Some r \<Rightarrow>
            if row_matches (TenantID rel) (ID rel) r then
              (let r1 = rel\<lparr>UpdatedAt := now\<rparr> in (Inr r1, (Some r1, now + 1)))
            else (Inl not_found, (row, now))),
      repo_Delete = (\<lambda>tenantID id' (row, now).
        case row of
          None \<Rightarrow> (Some not_found, (row, now))
        | Some r \<Rightarrow>
            if row_matches tenantID id' r then (None, (None, now))
            else (Some not_found, (row, now))),
      repo_List = (\<lambda>tenantID sourceNodeID targetNodeID relType opts (row, now).
        (let rows = filter (\<lambda>r. TenantID r = tenantID
                       \<and> (sourceNodeID = '''' \<or> SourceNodeID r = sourceNodeID)
                       \<and> (targetNodeID = '''' \<or> TargetNodeID r = targetNodeID)
                       \<and> (relType = '''' \<or> RelationshipType r = relType))
                     (case row of None \<Rightarrow> [] | Some r \<Rightarrow> [r])
         in (Inr (rows, \<lparr>NextPageToken = '''', TotalCount = of_nat (length rows)\<rparr>),
             (row, now))))\<rparr>"

subsection \<open>The stored relationships, from the specification\<close>

text \<open>
  Modelled from the spec: the storage behind \<open>RelationshipRepository\<close>
  (\<open>internal/repository\<close> and its SQL are not part of this development). The table of
  relationships maps an identifier, its primary key, to the row stored under it; the
  state is the table and the current time.
\<close>

type_synonym table = "(string \<rightharpoonup> Relationship) \<times> time"

text \<open>
  Modelled from the spec: the rule of section 4.3 for one field of an \<open>Update\<close>, whose
  code is not part of this development: a field present in the request overwrites the
  stored value, an empty one leaves the stored value unchanged.
\<close>

definition overwrite :: "string \<Rightarrow> string \<Rightarrow> string" where
  "overwrite stored given = (if given = '''' then stored else given)"

text \<open>
  Modelled from the spec: \<open>GetByID\<close> of the repository (section 4.3), whose code is not
  part of this development: it returns the stored entity and fails with NotFound if
  the row is absent or scoped to another tenant. Storage is not changed.
\<close>

definition table_GetByID :: "string \<Rightarrow> string \<Rightarrow> table \<Rightarrow> (error + Relationship) \<times> table" where
  "table_GetByID tenantID id' tb =
     (case fst tb id' of
        None \<Rightarrow> (Inl not_found, tb)
      | Some r \<Rightarrow>
          if row_matches tenantID id' r then (Inr r, tb) else (Inl not_found, tb))"

text \<open>
  Modelled from the spec: \<open>Update\<close> of the repository (section 4.3), whose code is not
  part of this development: it fails with NotFound if the row no longer exists;
  otherwise every field of the entity that is present overwrites the stored value, an
  empty one leaves it unchanged, \<open>updated_at\<close> is always refreshed, and the stored
  entity is returned. The identifier and the tenant locate the row; the creation
  timestamp is set by \<open>Create\<close> only.
\<close>

definition table_Update :: "Relationship \<Rightarrow> table \<Rightarrow> (error + Relationship) \<times> table" where
  "table_Update rel tb =
     (case fst tb (ID rel) of
        None \<Rightarrow> (Inl not_found, tb)
      | Some r \<Rightarrow>
          if row_matches (TenantID rel) (ID rel) r then
            (let r1 = r\<lparr>SourceNodeID := overwrite (SourceNodeID r) (SourceNodeID rel),
                        TargetNodeID := overwrite (TargetNodeID r) (TargetNodeID rel),
                        RelationshipType := overwrite (RelationshipType r) (RelationshipType rel),
                        Data := overwrite (Data r) (Data rel),
                        UpdatedAt := snd tb\<rparr>
             in (Inr r1, ((fst tb)(ID rel \<mapsto> r1), snd tb)))
          else (Inl not_found, tb))"

text \<open>
  Modelled from the spec: a repository over the table whose \<open>GetByID\<close> and \<open>Update\<close>
  are the two above; \<open>Create\<close>, \<open>Delete\<close> and \<open>List\<close>, which \<open>RelationshipService.Update\<close>
  never calls, are left open.
\<close>

definition table_repo ::
  "(Relationship \<Rightarrow> table \<Rightarrow> (error + Relationship) \<times> table)
     \<Rightarrow> (string \<Rightarrow> string \<Rightarrow> table \<Rightarrow> error option \<times> table)
     \<Rightarrow> (string \<Rightarrow> string \<Rightarrow> string \<Rightarrow> string \<Rightarrow> ListOptions \<Rightarrow> table
           \<Rightarrow> (error + Relationship list \<times> ListResult) \<times> table)
     \<Rightarrow> table RelationshipRepository" where
  "table_repo create delete list =
     \<lparr>repo_Create = create, repo_GetByID = table_GetByID, repo_Update = table_Update,
      repo_Delete = delete, repo_List = list\<rparr>"

section \<open>\<open>TenantHandler\<close> of \<open>internal/grpc/tenant_handler.go\<close>\<close>

text \<open>
  \<open>repository.Tenant\<close> and the protobuf message \<open>pb.Tenant\<close>, with the fields
  \<open>tenantToProto\<close> copies. \<open>timestamppb.New\<close> re-encodes an instant and is the identity
  on \<^typ>\<open>time\<close>.
\<close>

record Tenant =
  tenant_ID :: string
  tenant_Slug :: string
  tenant_Name :: string
  tenant_Status :: string
  tenant_CreatedAt :: time
  tenant_UpdatedAt :: time

record pb_Tenant =
  pb_Id :: string
  pb_Slug :: string
  pb_Name :: string
  pb_Status :: string
  pb_CreatedAt :: time
  pb_UpdatedAt :: time

definition tenantToProto :: "Tenant \<Rightarrow> pb_Tenant" where
  "tenantToProto t =
     \<lparr>pb_Id = tenant_ID t, pb_Slug = tenant_Slug t, pb_Name = tenant_Name t,
      pb_Status = tenant_Status t, pb_CreatedAt = tenant_CreatedAt t,
      pb_UpdatedAt = tenant_UpdatedAt t\<rparr>"

text \<open>The request and response messages, with the fields the handler reads and sets.
  \<open>Pagination\<close> is a pointer, nil when the request carries no pagination.\<close>

record CreateTenantRequest =
  create_Slug :: string
  create_Name :: string

record UpdateTenantRequest =
  update_Id :: string
  update_Slug :: string
  update_Name :: string
  update_Status :: string

record PaginationRequest =
  pagination_PageSize :: int32
  pagination_PageToken :: string

record ListTenantsRequest =
  Pagination :: "PaginationRequest option"

record PaginationResponse =
  response_NextPageToken :: string
  response_TotalCount :: int32

record ListTenantsResponse =
  Tenants :: "pb_Tenant list"
  response_Pagination :: PaginationResponse

text \<open>
  \<open>service.TenantService\<close> is declared in \<open>internal/service\<close>, which is not part of
  this development: the handler is modelled over any implementation of the five
  methods it calls, each a function of the state behind the service.
\<close>

record 'st TenantService =
  svc_Create :: "string \<Rightarrow> string \<Rightarrow> 'st \<Rightarrow> (error + Tenant) \<times> 'st"
  svc_GetByID :: "string \<Rightarrow> 'st \<Rightarrow> (error + Tenant) \<times> 'st"
  svc_Update :: "string \<Rightarrow> string \<Rightarrow> string \<Rightarrow> string \<Rightarrow> 'st \<Rightarrow> (error + Tenant) \<times> 'st"
  svc_Delete :: "string \<Rightarrow> 'st \<Rightarrow> error option \<times> 'st"
  svc_List :: "int32 \<Rightarrow> string \<Rightarrow> 'st \<Rightarrow> (error + Tenant list \<times> ListResult) \<times> 'st"

text \<open>
  A handler returns \<open>(response, nil)\<close> or \<open>(nil, status error)\<close>: a sum, \<open>Inl\<close> the
  status. The outer \<open>option\<close> is \<open>None\<close> when \<open>mapError\<close> panics. The responses of
  \<open>CreateTenant\<close>, \<open>GetTenant\<close> and \<open>UpdateTenant\<close> hold one field, the tenant; that of
  \<open>DeleteTenant\<close> is empty.
\<close>

definition CreateTenant ::
  "'st TenantService \<Rightarrow> CreateTenantRequest \<Rightarrow> 'st \<Rightarrow> (Status + pb_Tenant) option \<times> 'st" where
  "CreateTenant svc req st =
     (case svc_Create svc (create_Slug req) (create_Name req) st of
        (Inl err, st1) \<Rightarrow> (map_option Inl (mapError (Some err)), st1)
      | (Inr tenant, st1) \<Rightarrow> (Some (Inr (tenantToProto tenant)), st1))"

definition GetTenant ::
  "'st TenantService \<Rightarrow> string \<Rightarrow> 'st \<Rightarrow> (Status + pb_Tenant) option \<times> 'st" where
  "GetTenant svc req_Id st =
     (case svc_GetByID svc req_Id st of
        (Inl err, st1) \<Rightarrow> (map_option Inl (mapError (Some err)), st1)
      | (Inr tenant, st1) \<Rightarrow> (Some (Inr (tenantToProto tenant)), st1))"

definition UpdateTenant ::
  "'st TenantService \<Rightarrow> UpdateTenantRequest \<Rightarrow> 'st \<Rightarrow> (Status + pb_Tenant) option \<times> 'st" where
  "UpdateTenant svc req st =
     (case svc_Update svc (update_Id req) (update_Slug req) (update_Name req)
             (update_Status req) st of
        (Inl err, st1) \<Rightarrow> (map_option Inl (mapError (Some err)), st1)
      | (Inr tenant, st1) \<Rightarrow> (Some (Inr (tenantToProto tenant)), st1))"

definition DeleteTenant ::
  "'st TenantService \<Rightarrow> string \<Rightarrow> 'st \<Rightarrow> (Status + unit) option \<times> 'st" where
  "DeleteTenant svc req_Id st =
     (case svc_Delete svc req_Id st of
        (Some err, st1) \<Rightarrow> (map_option Inl (mapError (Some err)), st1)
      | (None, st1) \<Rightarrow> (Some (Inr ()), st1))"

text \<open>
  \<open>ListTenants\<close>: \<open>pageSize\<close> starts at 10 and \<open>pageToken\<close> at the empty string; the
  comparison \<open>PageSize > 0\<close> is signed. \<open>int32(result.TotalCount)\<close> keeps the low 32 bits.
\<close>

definition ListTenants ::
  "'st TenantService \<Rightarrow> ListTenantsRequest \<Rightarrow> 'st \<Rightarrow> (Status + ListTenantsResponse) option \<times> 'st" where
  "ListTenants svc req st =
     (let (pageSize, pageToken) =
            (case Pagination req of
               None \<Rightarrow> (10, '''')
             | Some p \<Rightarrow>
                 (if 0 < sint (pagination_PageSize p) then pagination_PageSize p else 10,
                  pagination_PageToken p))
      in case svc_List svc pageSize pageToken st of
           (Inl err, st1) \<Rightarrow> (map_option Inl (mapError (Some err)), st1)
         | (Inr (tenants, result), st1) \<Rightarrow>
             (Some (Inr \<lparr>Tenants = map tenantToProto tenants,
                         response_Pagination =
                           \<lparr>response_NextPageToken = NextPageToken result,
                            response_TotalCount = ucast (TotalCount result)\<rparr>\<rparr>),
              st1))"

subsection \<open>Observing the service calls of the handler\<close>

datatype svc_call =
  Svc_Create string string
  | Svc_GetByID string
  | Svc_Update string string string string
  | Svc_Delete string
  | Svc_List int32 string

definition recording_svc :: "'st TenantService \<Rightarrow> ('st \<times> svc_call list) TenantService" where
  "recording_svc svc =
     \<lparr>svc_Create = (\<lambda>slug name (st, calls).
        case svc_Create svc slug name st of
          (r, st1) \<Rightarrow> (r, (st1, calls @ [Svc_Create slug name]))),
      svc_GetByID = (\<lambda>id' (st, calls).
        case svc_GetByID svc id' st of (r, st1) \<Rightarrow> (r, (st1, calls @ [Svc_GetByID id']))),
      svc_Update = (\<lambda>id' slug name status (st, calls).
        case svc_Update svc id' slug name status st of
          (r, st1) \<Rightarrow> (r, (st1, calls @ [Svc_Update id' slug name status]))),
      svc_Delete = (\<lambda>id' (st, calls).
        case svc_Delete svc id' st of (r, st1) \<Rightarrow> (r, (st1, calls @ [Svc_Delete id']))),
      svc_List = (\<lambda>pageSize pageToken (st, calls).
        case svc_List svc pageSize pageToken st of
          (r, st1) \<Rightarrow> (r, (st1, calls @ [Svc_List pageSize pageToken])))\<rparr>"

text \<open>
  A tenant service with a canned answer, on which the handler is run at concrete
  inputs: every method answers with the given error, or with the given tenant.
\<close>

definition canned_svc :: "error + Tenant \<Rightarrow> unit TenantService" where
  "canned_svc answer =
     \<lparr>svc_Create = (\<lambda>slug name st. (answer, st)),
      svc_GetByID = (\<lambda>id' st. (answer, st)),
      svc_Update = (\<lambda>id' slug name status st. (answer, st)),
      svc_Delete = (\<lambda>id' st. ((case answer of Inl err \<Rightarrow> Some err | Inr t \<Rightarrow> None), st)),
      svc_List = (\<lambda>pageSize pageToken st.
        ((case answer of
            Inl err \<Rightarrow> Inl err
          | Inr t \<Rightarrow> Inr ([t], \<lparr>NextPageToken = '''', TotalCount = 1\<rparr>)), st))\<rparr>"

section \<open>Correctness of the substring search\<close>

text \<open>A string occurs in another one exactly when it fills a window of it.\<close>

lemma sublist_iff_window:
  "sublist sub s \<longleftrightarrow> (\<exists>j. j + length sub \<le> length s \<and> take (length sub) (drop j s) = sub)"
proof
  assume "sublist sub s"
  then obtain ps ss where "s = ps @ sub @ ss" by (auto simp: sublist_def)
  then have "length ps + length sub \<le> length s \<and> take (length sub) (drop (length ps) s) = sub"
    by simp
  then show "\<exists>j. j + length sub \<le> length s \<and> take (length sub) (drop j s) = sub" by blast
next
  assume "\<exists>j. j + length sub \<le> length s \<and> take (length sub) (drop j s) = sub"
  then obtain j where j: "j + length sub \<le> length s" "take (length sub) (drop j s) = sub" by blast
  have "s = take j s @ take (length sub) (drop j s) @ drop (length sub) (drop j s)"
    by (metis append_take_drop_id)
  with j have "s = take j s @ sub @ drop (length sub) (drop j s)" by simp
  then show "sublist sub s" unfolding sublist_def by blast
qed

text \<open>
  The loop entered at \<open>i\<close> never slices out of range, and answers whether some window
  at an offset from \<open>i\<close> on holds \<open>sub\<close>.
\<close>

lemma containsAt_loop_window:
  "containsAt_loop s sub i =
     Some (\<exists>j\<ge>i. j + length sub \<le> length s \<and> take (length sub) (drop j s) = sub)"
proof (induction s sub i rule: containsAt_loop.induct)
  case (1 s sub i)
  show ?case
  proof (cases "int i \<le> int (length s) - int (length sub)")
    case False
    then have "\<not> (\<exists>j\<ge>i. j + length sub \<le> length s \<and> take (length sub) (drop j s) = sub)"
      by auto
    with False show ?thesis by (subst containsAt_loop.simps) simp
  next
    case True
    then have le: "i + length sub \<le> length s" by linarith
    then have sl: "string_slice s i (i + length sub) = Some (take (length sub) (drop i s))"
      by (simp add: string_slice_def)
    show ?thesis
    proof (cases "take (length sub) (drop i s) = sub")
      case hit: True
      with le have "\<exists>j\<ge>i. j + length sub \<le> length s \<and> take (length sub) (drop j s) = sub"
        by blast
      with True sl hit show ?thesis by (subst containsAt_loop.simps) simp
    next
      case miss: False
      have "(\<exists>j\<ge>i. j + length sub \<le> length s \<and> take (length sub) (drop j s) = sub)
         \<longleftrightarrow> (\<exists>j\<ge>i + 1. j + length sub \<le> length s \<and> take (length sub) (drop j s) = sub)"
        using miss by (metis Suc_eq_plus1 Suc_leI le_neq_implies_less add_leD1)
      moreover have "containsAt_loop s sub (i + 1) =
         Some (\<exists>j\<ge>i + 1. j + length sub \<le> length s \<and> take (length sub) (drop j s) = sub)"
        using "1.IH" [OF True sl miss] .
      ultimately show ?thesis using True sl miss by (subst containsAt_loop.simps) simp
    qed
  qed
qed

lemma containsAt_sublist: "containsAt s sub = Some (sublist sub s)"
  by (simp add: containsAt_def containsAt_loop_window sublist_iff_window)

lemma contains_sublist: "contains s sub = Some (sublist sub s)"
proof -
  have "\<not> length sub \<le> length s \<Longrightarrow> \<not> sublist sub s"
    by (auto simp: sublist_def)
  moreover have "s = [] \<Longrightarrow> s \<noteq> sub \<Longrightarrow> \<not> sublist sub s"
    by auto
  ultimately show ?thesis
    by (auto simp: contains_def containsAt_sublist)
qed

lemma containsAny_sublist:
  "containsAny s subs = Some (\<exists>sub\<in>set subs. sublist sub s)"
  by (induction subs) (auto simp: contains_sublist split: bool.splits)

text \<open>
  Claim C9. For all strings \<open>s\<close> and \<open>substr\<close>, \<open>contains(s, substr)\<close> returns (without
  panicking) true exactly when \<open>substr\<close> occurs as a contiguous substring of \<open>s\<close>, that
  is when \<open>s = pre @ substr @ post\<close> for some \<open>pre\<close> and \<open>post\<close>, which is the library
  predicate \<^const>\<open>sublist\<close>; \<open>containsAny\<close> with that one substring returns the same;
  the empty substring is contained in every string, and a non-empty substring is not
  contained in the empty string.
\<close>

theorem contains_iff_substring:
  "contains s substr = Some (\<exists>pre post. s = pre @ substr @ post)
   \<and> contains s substr = Some (sublist substr s)
   \<and> containsAny s [substr] = contains s substr
   \<and> contains s '''' = Some True
   \<and> contains '''' (c # cs) = Some False"
proof -
  have "contains s substr = Some (sublist substr s)" by (rule contains_sublist)
  moreover have "containsAny s [substr] = contains s substr"
    by (simp add: containsAny_sublist contains_sublist)
  moreover have "contains s '''' = Some True" by (simp add: contains_sublist)
  moreover have "contains '''' (c # cs) = Some False" by (simp add: contains_sublist)
  ultimately show ?thesis by (simp add: sublist_def)
qed

section \<open>The error mapping of the handler\<close>

text \<open>\<open>mapError\<close> on a non-nil error never panics; its three outcomes in one equation.\<close>

lemma mapError_Some:
  "mapError (Some e) =
     Some (status_Error
       (if Is_ErrNotFound e then NotFound
        else if sublist ''required'' (Error e) \<or> sublist ''invalid'' (Error e) then InvalidArgument
        else Internal)
       (Error e))"
  by (simp add: mapError_def errors_Is_ErrNotFound_def containsAny_sublist split: bool.splits)

text \<open>
  Claim C6. For every error \<open>err\<close> with \<open>errors.Is(err, repository.ErrNotFound)\<close>,
  \<open>mapError\<close> returns the status with code \<open>NotFound\<close> whose message is \<open>err.Error()\<close>
  unchanged, whatever that text contains: the NotFound test comes before the search for
  \<open>required\<close> and \<open>invalid\<close>. (Such an error is not nil.)
\<close>

theorem mapError_NotFound_verbatim:
  "errors_Is_ErrNotFound err \<Longrightarrow>
     \<exists>e. err = Some e \<and> mapError err = Some \<lparr>Code = NotFound, Message = Error e\<rparr>"
  by (cases err) (simp_all add: errors_Is_ErrNotFound_def mapError_Some status_Error_def)

text \<open>An error that wraps \<open>ErrNotFound\<close> and whose text contains both \<open>required\<close> and
  \<open>invalid\<close> is mapped to \<open>NotFound\<close>.\<close>

theorem mapError_NotFound_verbatim_witness:
  "errors_Is_ErrNotFound
     (Some \<lparr>Error = ''tenant id is required: invalid lookup: not found'', Is_ErrNotFound = True\<rparr>)
   \<and> contains ''tenant id is required: invalid lookup: not found'' ''required'' = Some True
   \<and> contains ''tenant id is required: invalid lookup: not found'' ''invalid'' = Some True
   \<and> mapError
       (Some \<lparr>Error = ''tenant id is required: invalid lookup: not found'', Is_ErrNotFound = True\<rparr>)
     = Some \<lparr>Code = NotFound, Message = ''tenant id is required: invalid lookup: not found''\<rparr>"
proof -
  let ?e = "\<lparr>Error = ''tenant id is required: invalid lookup: not found'', Is_ErrNotFound = True\<rparr>"
  have h: "errors_Is_ErrNotFound (Some ?e)"
    by (simp add: errors_Is_ErrNotFound_def)
  have c1: "contains ''tenant id is required: invalid lookup: not found'' ''required'' = Some True"
    by (simp add: contains_sublist sublist_Cons_right)
  have c2: "contains ''tenant id is required: invalid lookup: not found'' ''invalid'' = Some True"
    by (simp add: contains_sublist sublist_Cons_right)
  from mapError_NotFound_verbatim [OF h] h c1 c2 show ?thesis by simp
qed

text \<open>
  Claim C3 says that an error classified as Internal reaches the caller as an opaque
  failure, without the text of the underlying error. The last line of \<open>mapError\<close>
  passes \<open>err.Error()\<close> to \<open>status.Error\<close>: a refused database connection reaches the
  caller with its address in the message.
\<close>

theorem mapError_Internal_counterexample:
  "mapError (Some \<lparr>Error = ''dial tcp 10.0.0.5:5432: connect: connection refused'',
                   Is_ErrNotFound = False\<rparr>)
   = Some \<lparr>Code = Internal, Message = ''dial tcp 10.0.0.5:5432: connect: connection refused''\<rparr>"
  by (simp add: mapError_Some status_Error_def sublist_Cons_right)

text \<open>
  Claim C3, amended. For every error that does not wrap \<open>ErrNotFound\<close> and whose text
  contains neither \<open>required\<close> nor \<open>invalid\<close>, \<open>mapError\<close> returns the status with code
  \<open>Internal\<close> whose message is the text of the underlying error, unchanged.
\<close>

theorem mapError_Internal_verbatim:
  "\<not> Is_ErrNotFound e \<Longrightarrow> \<not> sublist ''required'' (Error e) \<Longrightarrow> \<not> sublist ''invalid'' (Error e)
     \<Longrightarrow> mapError (Some e) = Some \<lparr>Code = Internal, Message = Error e\<rparr>"
  by (simp add: mapError_Some status_Error_def)

theorem mapError_Internal_verbatim_witness:
  "\<not> Is_ErrNotFound \<lparr>Error = ''pq: too many connections'', Is_ErrNotFound = False\<rparr>
   \<and> \<not> sublist ''required'' ''pq: too many connections''
   \<and> \<not> sublist ''invalid'' ''pq: too many connections''
   \<and> mapError (Some \<lparr>Error = ''pq: too many connections'', Is_ErrNotFound = False\<rparr>)
     = Some \<lparr>Code = Internal, Message = ''pq: too many connections''\<rparr>"
proof -
  let ?e = "\<lparr>Error = ''pq: too many connections'', Is_ErrNotFound = False\<rparr>"
  have h1: "\<not> Is_ErrNotFound ?e" by simp
  have h2: "\<not> sublist ''required'' (Error ?e)" by (simp add: sublist_Cons_right)
  have h3: "\<not> sublist ''invalid'' (Error ?e)" by (simp add: sublist_Cons_right)
  from mapError_Internal_verbatim [OF h1 h2 h3] h2 h3 show ?thesis by simp
qed

text \<open>
  Claim C4 says that a Create request violating a uniqueness constraint surfaces an error
  of kind Conflict. \<open>CreateTenant\<close> passes whatever error the service returns through
  \<open>mapError\<close>, which knows three codes only: the driver's duplicate-key error, which
  does not wrap \<open>ErrNotFound\<close> and mentions neither \<open>required\<close> nor \<open>invalid\<close>, reaches
  the caller as \<open>Internal\<close>.
\<close>

theorem CreateTenant_duplicate_counterexample:
  "fst (CreateTenant
         (canned_svc (Inl \<lparr>Error = ''pq: duplicate key value violates unique constraint tenants_slug_key'',
                           Is_ErrNotFound = False\<rparr>))
         \<lparr>create_Slug = ''acme'', create_Name = ''Other''\<rparr> ())
   = Some (Inl \<lparr>Code = Internal,
                 Message = ''pq: duplicate key value violates unique constraint tenants_slug_key''\<rparr>)"
  by (simp add: CreateTenant_def canned_svc_def mapError_Some status_Error_def sublist_Cons_right)

text \<open>
  Claim C4, amended. For every Create request on which the tenant service fails, a
  uniqueness violation included, \<open>CreateTenant\<close> surfaces a status carrying the error's
  text whose code is \<open>NotFound\<close>, \<open>InvalidArgument\<close> or \<open>Internal\<close>: \<open>Internal\<close> unless the
  error wraps \<open>ErrNotFound\<close> or its text contains \<open>required\<close> or \<open>invalid\<close>. No fourth,
  Conflict kind is produced.
\<close>

theorem CreateTenant_error_codes:
  "svc_Create svc (create_Slug req) (create_Name req) st = (Inl err, st1) \<Longrightarrow>
     \<exists>s. CreateTenant svc req st = (Some (Inl s), st1)
       \<and> Message s = Error err
       \<and> Code s = (if Is_ErrNotFound err then NotFound
                   else if sublist ''required'' (Error err) \<or> sublist ''invalid'' (Error err)
                   then InvalidArgument else Internal)
       \<and> Code s \<in> {NotFound, InvalidArgument, Internal}"
  by (simp add: CreateTenant_def mapError_Some status_Error_def)

theorem CreateTenant_error_codes_witness:
  "svc_Create
     (canned_svc (Inl \<lparr>Error = ''pq: duplicate key value violates unique constraint tenants_slug_key'',
                       Is_ErrNotFound = False\<rparr>))
     (create_Slug \<lparr>create_Slug = ''acme'', create_Name = ''Other''\<rparr>)
     (create_Name \<lparr>create_Slug = ''acme'', create_Name = ''Other''\<rparr>) ()
   = (Inl \<lparr>Error = ''pq: duplicate key value violates unique constraint tenants_slug_key'',
           Is_ErrNotFound = False\<rparr>, ())
   \<and> CreateTenant
       (canned_svc (Inl \<lparr>Error = ''pq: duplicate key value violates unique constraint tenants_slug_key'',
                         Is_ErrNotFound = False\<rparr>))
       \<lparr>create_Slug = ''acme'', create_Name = ''Other''\<rparr> ()
     = (Some (Inl \<lparr>Code = Internal,
                   Message = ''pq: duplicate key value violates unique constraint tenants_slug_key''\<rparr>), ())"
proof -
  let ?err = "\<lparr>Error = ''pq: duplicate key value violates unique constraint tenants_slug_key'',
               Is_ErrNotFound = False\<rparr>"
  let ?req = "\<lparr>create_Slug = ''acme'', create_Name = ''Other''\<rparr>"
  have h: "svc_Create (canned_svc (Inl ?err)) (create_Slug ?req) (create_Name ?req) ()
             = (Inl ?err, ())"
    by (simp add: canned_svc_def)
  have n: "\<not> sublist ''required'' (Error ?err)" "\<not> sublist ''invalid'' (Error ?err)"
    by (simp_all add: sublist_Cons_right)
  from CreateTenant_error_codes [OF h] obtain s where
    s: "CreateTenant (canned_svc (Inl ?err)) ?req () = (Some (Inl s), ())"
       "Message s = Error ?err"
       "Code s = (if Is_ErrNotFound ?err then NotFound
                   else if sublist ''required'' (Error ?err) \<or> sublist ''invalid'' (Error ?err)
                   then InvalidArgument else Internal)"
    by blast
  from s(3) n have "Code s = Internal" by simp
  with s(2) have "s = \<lparr>Code = Internal, Message = Error ?err\<rparr>" by (cases s) simp
  with s(1) h show ?thesis by simp
qed

section \<open>Validation and partial update in the relationship service\<close>

text \<open>A call through the recording wrapper is the call itself, with one more entry in the log.\<close>

lemma recording_simps:
  "repo_Create (recording repo) rel (st, calls) =
     (case repo_Create repo rel st of (r, st1) \<Rightarrow> (r, (st1, calls @ [Call_Create rel])))"
  "repo_GetByID (recording repo) tenantID id' (st, calls) =
     (case repo_GetByID repo tenantID id' st of
        (r, st1) \<Rightarrow> (r, (st1, calls @ [Call_GetByID tenantID id'])))"
  "repo_Update (recording repo) rel (st, calls) =
     (case repo_Update repo rel st of (r, st1) \<Rightarrow> (r, (st1, calls @ [Call_Update rel])))"
  "repo_Delete (recording repo) tenantID id' (st, calls) =
     (case repo_Delete repo tenantID id' st of
        (r, st1) \<Rightarrow> (r, (st1, calls @ [Call_Delete tenantID id'])))"
  "repo_List (recording repo) tenantID sourceNodeID targetNodeID relType opts (st, calls) =
     (case repo_List repo tenantID sourceNodeID targetNodeID relType opts st of
        (r, st1) \<Rightarrow>
          (r, (st1, calls @ [Call_List tenantID sourceNodeID targetNodeID relType opts])))"
  by (simp_all add: recording_def)

text \<open>The five messages of the service are classified as validation errors by \<open>mapError\<close>.\<close>

lemma required_is_InvalidArgument:
  "sublist ''required'' msg \<Longrightarrow>
     mapError (Some (fmt_Errorf msg)) = Some \<lparr>Code = InvalidArgument, Message = msg\<rparr>"
  by (simp add: mapError_Some fmt_Errorf_def status_Error_def)

lemma validation_messages:
  "mapError (Some (fmt_Errorf ''tenant_id is required''))
     = Some \<lparr>Code = InvalidArgument, Message = ''tenant_id is required''\<rparr>"
  "mapError (Some (fmt_Errorf ''id is required''))
     = Some \<lparr>Code = InvalidArgument, Message = ''id is required''\<rparr>"
  "mapError (Some (fmt_Errorf ''source_node_id is required''))
     = Some \<lparr>Code = InvalidArgument, Message = ''source_node_id is required''\<rparr>"
  "mapError (Some (fmt_Errorf ''target_node_id is required''))
     = Some \<lparr>Code = InvalidArgument, Message = ''target_node_id is required''\<rparr>"
  "mapError (Some (fmt_Errorf ''relationship_type is required''))
     = Some \<lparr>Code = InvalidArgument, Message = ''relationship_type is required''\<rparr>"
  by (rule required_is_InvalidArgument, simp add: sublist_Cons_right)+

text \<open>
  Claim C1. For every operation of the relationship service, if a required string
  argument is empty (\<open>tenant_id\<close> for all five operations; \<open>id\<close> for \<open>GetByID\<close>, \<open>Update\<close> and
  \<open>Delete\<close>; \<open>source_node_id\<close>, \<open>target_node_id\<close> and \<open>relationship_type\<close> for \<open>Create\<close>),
  the operation returns a validation error (one that is not NotFound and that
  \<open>mapError\<close> reports as \<open>InvalidArgument\<close>), and no repository method is invoked: over any
  repository, the log of calls and the storage state are as they were.
\<close>

theorem RelationshipService_validation:
  "(tenantID = '''' \<or> sourceNodeID = '''' \<or> targetNodeID = '''' \<or> relType = '''' \<longrightarrow>
      (\<exists>e. RelationshipService_Create (recording repo) tenantID sourceNodeID targetNodeID
              relType data (st, calls) = (Inl e, (st, calls))
           \<and> \<not> Is_ErrNotFound e
           \<and> mapError (Some e) = Some \<lparr>Code = InvalidArgument, Message = Error e\<rparr>))
   \<and> (tenantID = '''' \<or> id' = '''' \<longrightarrow>
      (\<exists>e. RelationshipService_GetByID (recording repo) tenantID id' (st, calls)
              = (Inl e, (st, calls))
           \<and> \<not> Is_ErrNotFound e
           \<and> mapError (Some e) = Some \<lparr>Code = InvalidArgument, Message = Error e\<rparr>))
   \<and> (tenantID = '''' \<or> id' = '''' \<longrightarrow>
      (\<exists>e. RelationshipService_Update (recording repo) tenantID id' relType data (st, calls)
              = (Inl e, (st, calls))
           \<and> \<not> Is_ErrNotFound e
           \<and> mapError (Some e) = Some \<lparr>Code = InvalidArgument, Message = Error e\<rparr>))
   \<and> (tenantID = '''' \<or> id' = '''' \<longrightarrow>
      (\<exists>e. RelationshipService_Delete (recording repo) tenantID id' (st, calls)
              = (Some e, (st, calls))
           \<and> \<not> Is_ErrNotFound e
           \<and> mapError (Some e) = Some \<lparr>Code = InvalidArgument, Message = Error e\<rparr>))
   \<and> (tenantID = '''' \<longrightarrow>
      (\<exists>e. RelationshipService_List (recording repo) tenantID sourceNodeID targetNodeID
              relType pageSize pageToken (st, calls) = (Inl e, (st, calls))
           \<and> \<not> Is_ErrNotFound e
           \<and> mapError (Some e) = Some \<lparr>Code = InvalidArgument, Message = Error e\<rparr>))"
proof (intro conjI impI)
  assume "tenantID = '''' \<or> sourceNodeID = '''' \<or> targetNodeID = '''' \<or> relType = ''''"
  then show "\<exists>e. RelationshipService_Create (recording repo) tenantID sourceNodeID targetNodeID
              relType data (st, calls) = (Inl e, (st, calls))
           \<and> \<not> Is_ErrNotFound e
           \<and> mapError (Some e) = Some \<lparr>Code = InvalidArgument, Message = Error e\<rparr>"
    unfolding RelationshipService_Create_def
    using validation_messages by (auto simp: fmt_Errorf_def)
next
  assume "tenantID = '''' \<or> id' = ''''"
  then show "\<exists>e. RelationshipService_GetByID (recording repo) tenantID id' (st, calls)
              = (Inl e, (st, calls))
           \<and> \<not> Is_ErrNotFound e
           \<and> mapError (Some e) = Some \<lparr>Code = InvalidArgument, Message = Error e\<rparr>"
    unfolding RelationshipService_GetByID_def
    using validation_messages by (auto simp: fmt_Errorf_def)
next
  assume "tenantID = '''' \<or> id' = ''''"
  then show "\<exists>e. RelationshipService_Update (recording repo) tenantID id' relType data (st, calls)
              = (Inl e, (st, calls))
           \<and> \<not> Is_ErrNotFound e
           \<and> mapError (Some e) = Some \<lparr>Code = InvalidArgument, Message = Error e\<rparr>"
    unfolding RelationshipService_Update_def
    using validation_messages by (auto simp: fmt_Errorf_def)
next
  assume "tenantID = '''' \<or> id' = ''''"
  then show "\<exists>e. RelationshipService_Delete (recording repo) tenantID id' (st, calls)
              = (Some e, (st, calls))
           \<and> \<not> Is_ErrNotFound e
           \<and> mapError (Some e) = Some \<lparr>Code = InvalidArgument, Message = Error e\<rparr>"
    unfolding RelationshipService_Delete_def
    using validation_messages by (auto simp: fmt_Errorf_def)
next
  assume "tenantID = ''''"
  then show "\<exists>e. RelationshipService_List (recording repo) tenantID sourceNodeID targetNodeID
              relType pageSize pageToken (st, calls) = (Inl e, (st, calls))
           \<and> \<not> Is_ErrNotFound e
           \<and> mapError (Some e) = Some \<lparr>Code = InvalidArgument, Message = Error e\<rparr>"
    unfolding RelationshipService_List_def
    using validation_messages by (auto simp: fmt_Errorf_def)
qed

text \<open>The service over the one-row repository, with an empty tenant, relationship type or id.\<close>

theorem RelationshipService_validation_witness:
  "RelationshipService_Create (recording one_row_repo) '''' ''n1'' ''n2'' ''knows'' ''{}''
       ((None, 7), []) = (Inl (fmt_Errorf ''tenant_id is required''), ((None, 7), []))
   \<and> RelationshipService_Create (recording one_row_repo) ''t1'' ''n1'' ''n2'' '''' ''{}''
       ((None, 7), []) = (Inl (fmt_Errorf ''relationship_type is required''), ((None, 7), []))
   \<and> RelationshipService_GetByID (recording one_row_repo) ''t1'' '''' ((None, 7), [])
       = (Inl (fmt_Errorf ''id is required''), ((None, 7), []))
   \<and> RelationshipService_Update (recording one_row_repo) ''t1'' '''' '''' ''{}'' ((None, 7), [])
       = (Inl (fmt_Errorf ''id is required''), ((None, 7), []))
   \<and> RelationshipService_Delete (recording one_row_repo) ''t1'' '''' ((None, 7), [])
       = (Some (fmt_Errorf ''id is required''), ((None, 7), []))
   \<and> RelationshipService_List (recording one_row_repo) '''' ''n1'' ''n2'' ''knows'' 10 ''''
       ((None, 7), []) = (Inl (fmt_Errorf ''tenant_id is required''), ((None, 7), []))
   \<and> mapError (Some (fmt_Errorf ''id is required''))
       = Some \<lparr>Code = InvalidArgument, Message = ''id is required''\<rparr>"
proof -
  note a = RelationshipService_validation
    [where tenantID = "''''" and sourceNodeID = "''n1''" and targetNodeID = "''n2''"
       and relType = "''knows''" and repo = one_row_repo and data = "''{}''"
       and st = "(None, 7)" and calls = "[]" and id' = "''r1''" and pageSize = 10
       and pageToken = "''''"]
  note b = RelationshipService_validation
    [where tenantID = "''t1''" and sourceNodeID = "''n1''" and targetNodeID = "''n2''"
       and relType = "''''" and repo = one_row_repo and data = "''{}''"
       and st = "(None, 7)" and calls = "[]" and id' = "''''" and pageSize = 10
       and pageToken = "''''"]
  from a b show ?thesis
    by (simp add: RelationshipService_Create_def RelationshipService_GetByID_def
          RelationshipService_Update_def RelationshipService_Delete_def
          RelationshipService_List_def validation_messages)
qed

text \<open>What \<open>Update\<close> does once both identifiers are given and \<open>GetByID\<close> has found the row.\<close>

lemma Update_after_GetByID:
  assumes "id' \<noteq> ''''" "tenantID \<noteq> ''''"
    and "repo_GetByID repo tenantID id' st = (Inr rel, st1)"
  shows "RelationshipService_Update (recording repo) tenantID id' relType data (st, calls) =
     (case repo_Update repo
             (rel\<lparr>RelationshipType := (if relType = '''' then RelationshipType rel else relType),
                  Data := (if data = '''' then Data rel else data)\<rparr>) st1 of
        (r, st2) \<Rightarrow>
          (r, (st2, calls @ [Call_GetByID tenantID id',
                 Call_Update
                   (rel\<lparr>RelationshipType := (if relType = '''' then RelationshipType rel else relType),
                        Data := (if data = '''' then Data rel else data)\<rparr>)])))"
  using assms
  by (simp add: RelationshipService_Update_def recording_simps Let_def split: prod.splits)

text \<open>
  The same on the table of the specification: the row found is written back with the
  two fields overwritten where the arguments are non-empty and \<open>UpdatedAt\<close> refreshed;
  no other row is touched.
\<close>

lemma Update_on_table:
  assumes "id' \<noteq> ''''" "tenantID \<noteq> ''''"
    and "rows id' = Some row" and "row_matches tenantID id' row"
  shows "RelationshipService_Update (table_repo create delete list) tenantID id' relType data
           (rows, now) =
     (Inr (row\<lparr>RelationshipType := (if relType = '''' then RelationshipType row else relType),
               Data := (if data = '''' then Data row else data),
               UpdatedAt := now\<rparr>),
      (rows(id' \<mapsto>
         row\<lparr>RelationshipType := (if relType = '''' then RelationshipType row else relType),
             Data := (if data = '''' then Data row else data),
             UpdatedAt := now\<rparr>), now))"
proof -
  from assms(4) have k: "TenantID row = tenantID" "ID row = id'"
    by (simp_all add: row_matches_def)
  have sel: "repo_GetByID (table_repo create delete list) = table_GetByID"
    "repo_Update (table_repo create delete list) = table_Update"
    by (simp_all add: table_repo_def)
  have g: "table_GetByID tenantID id' (rows, now) = (Inr row, (rows, now))"
    using assms(3,4) by (simp add: table_GetByID_def)
  have u: "table_Update
             (row\<lparr>RelationshipType := (if relType = '''' then RelationshipType row else relType),
                  Data := (if data = '''' then Data row else data)\<rparr>) (rows, now) =
     (Inr (row\<lparr>RelationshipType := (if relType = '''' then RelationshipType row else relType),
               Data := (if data = '''' then Data row else data),
               UpdatedAt := now\<rparr>),
      (rows(id' \<mapsto>
         row\<lparr>RelationshipType := (if relType = '''' then RelationshipType row else relType),
             Data := (if data = '''' then Data row else data),
             UpdatedAt := now\<rparr>), now))"
    using assms(3) k by (simp add: table_Update_def row_matches_def overwrite_def Let_def)
  show ?thesis
    using assms(1,2) u
    by (cases "relType = ''''"; cases "data = ''''")
       (simp_all add: RelationshipService_Update_def sel g)
qed

text \<open>
  Claim C2. For every stored relationship, \<open>Update\<close> with \<open>relationship_type\<close> and \<open>data\<close>
  both empty passes the entity fetched by \<open>GetByID\<close> to the repository's \<open>Update\<close>
  unchanged, so that every stored field other than \<open>updated_at\<close> is preserved; and when
  \<open>relationship_type\<close> or \<open>data\<close> is non-empty, only that field of the fetched entity is
  overwritten before the repository's \<open>Update\<close>.

  The first two statements hold for any repository whose \<open>GetByID\<close> returns the entity:
  the calls made are \<open>GetByID\<close> and then \<open>Update\<close> with the fetched entity, in which
  \<open>RelationshipType\<close> and \<open>Data\<close> are overwritten exactly where the argument is
  non-empty, and the answer is the one of that call. The last two are about what is
  stored, on the repository of the specification and for every table, row and time:
  after the update the row is the old one with \<open>UpdatedAt\<close> refreshed (and the two
  fields overwritten where the arguments are non-empty), and every other row of the
  table is as before.
\<close>

theorem RelationshipService_Update_partial:
  assumes "id' \<noteq> ''''" "tenantID \<noteq> ''''"
    and "repo_GetByID repo tenantID id' st = (Inr rel, st1)"
    and "rows id' = Some row" and "row_matches tenantID id' row"
  shows "RelationshipService_Update (recording repo) tenantID id' '''' '''' (st, calls) =
       (case repo_Update repo rel st1 of
          (r, st2) \<Rightarrow> (r, (st2, calls @ [Call_GetByID tenantID id', Call_Update rel])))
   \<and> RelationshipService_Update (recording repo) tenantID id' relType data (st, calls) =
       (case repo_Update repo
               (rel\<lparr>RelationshipType := (if relType = '''' then RelationshipType rel else relType),
                    Data := (if data = '''' then Data rel else data)\<rparr>) st1 of
          (r, st2) \<Rightarrow>
            (r, (st2, calls @ [Call_GetByID tenantID id',
                   Call_Update
                     (rel\<lparr>RelationshipType := (if relType = '''' then RelationshipType rel else relType),
                          Data := (if data = '''' then Data rel else data)\<rparr>)])))
   \<and> RelationshipService_Update (table_repo create delete list) tenantID id' '''' ''''
         (rows, now) =
       (Inr (row\<lparr>UpdatedAt := now\<rparr>), (rows(id' \<mapsto> row\<lparr>UpdatedAt := now\<rparr>), now))
   \<and> RelationshipService_Update (table_repo create delete list) tenantID id' relType data
         (rows, now) =
       (Inr (row\<lparr>RelationshipType := (if relType = '''' then RelationshipType row else relType),
                 Data := (if data = '''' then Data row else data),
                 UpdatedAt := now\<rparr>),
        (rows(id' \<mapsto>
           row\<lparr>RelationshipType := (if relType = '''' then RelationshipType row else relType),
               Data := (if data = '''' then Data row else data),
               UpdatedAt := now\<rparr>), now))"
proof (intro conjI)
  show "RelationshipService_Update (recording repo) tenantID id' '''' '''' (st, calls) =
       (case repo_Update repo rel st1 of
          (r, st2) \<Rightarrow> (r, (st2, calls @ [Call_GetByID tenantID id', Call_Update rel])))"
    using Update_after_GetByID [OF assms(1-3), of "''''" "''''" calls] by simp
next
  show "RelationshipService_Update (recording repo) tenantID id' relType data (st, calls) =
       (case repo_Update repo
               (rel\<lparr>RelationshipType := (if relType = '''' then RelationshipType rel else relType),
                    Data := (if data = '''' then Data rel else data)\<rparr>) st1 of
          (r, st2) \<Rightarrow>
            (r, (st2, calls @ [Call_GetByID tenantID id',
                   Call_Update
                     (rel\<lparr>RelationshipType := (if relType = '''' then RelationshipType rel else relType),
                          Data := (if data = '''' then Data rel else data)\<rparr>)])))"
    by (rule Update_after_GetByID [OF assms(1-3)])
next
  show "RelationshipService_Update (table_repo create delete list) tenantID id' '''' ''''
         (rows, now) =
       (Inr (row\<lparr>UpdatedAt := now\<rparr>), (rows(id' \<mapsto> row\<lparr>UpdatedAt := now\<rparr>), now))"
    using Update_on_table [where rows = rows and relType = "''''" and data = "''''",
            OF assms(1,2,4,5)]
    by simp
next
  show "RelationshipService_Update (table_repo create delete list) tenantID id' relType data
         (rows, now) =
       (Inr (row\<lparr>RelationshipType := (if relType = '''' then RelationshipType row else relType),
                 Data := (if data = '''' then Data row else data),
                 UpdatedAt := now\<rparr>),
        (rows(id' \<mapsto>
           row\<lparr>RelationshipType := (if relType = '''' then RelationshipType row else relType),
               Data := (if data = '''' then Data row else data),
               UpdatedAt := now\<rparr>), now))"
    by (rule Update_on_table [where rows = rows, OF assms(1,2,4,5)])
qed

text \<open>
  On a table of two rows, the first with an empty \<open>Data\<close>: the update with both
  arguments empty hands the fetched row to the repository and leaves it stored as it
  was but for \<open>UpdatedAt\<close>; the update of the relationship type changes that field only;
  the second row is not touched.
\<close>

theorem RelationshipService_Update_partial_witness:
  "repo_GetByID
     (table_repo (\<lambda>rel tb. (Inl not_found, tb)) (\<lambda>tenantID id' tb. (Some not_found, tb))
        (\<lambda>tenantID sourceNodeID targetNodeID relType opts tb. (Inl not_found, tb)))
     ''t1'' ''r1''
     ([''r1'' \<mapsto> \<lparr>ID = ''r1'', TenantID = ''t1'', SourceNodeID = ''n1'', TargetNodeID = ''n2'',
                    RelationshipType = ''knows'', Data = '''', CreatedAt = 10, UpdatedAt = 20\<rparr>,
       ''r2'' \<mapsto> \<lparr>ID = ''r2'', TenantID = ''t1'', SourceNodeID = ''n2'', TargetNodeID = ''n1'',
                    RelationshipType = ''knows'', Data = ''{}'', CreatedAt = 11, UpdatedAt = 11\<rparr>],
      100)
   = (Inr \<lparr>ID = ''r1'', TenantID = ''t1'', SourceNodeID = ''n1'', TargetNodeID = ''n2'',
           RelationshipType = ''knows'', Data = '''', CreatedAt = 10, UpdatedAt = 20\<rparr>,
      ([''r1'' \<mapsto> \<lparr>ID = ''r1'', TenantID = ''t1'', SourceNodeID = ''n1'', TargetNodeID = ''n2'',
                     RelationshipType = ''knows'', Data = '''', CreatedAt = 10, UpdatedAt = 20\<rparr>,
        ''r2'' \<mapsto> \<lparr>ID = ''r2'', TenantID = ''t1'', SourceNodeID = ''n2'', TargetNodeID = ''n1'',
                     RelationshipType = ''knows'', Data = ''{}'', CreatedAt = 11, UpdatedAt = 11\<rparr>],
       100))
   \<and> snd (snd (RelationshipService_Update
        (recording
          (table_repo (\<lambda>rel tb. (Inl not_found, tb)) (\<lambda>tenantID id' tb. (Some not_found, tb))
             (\<lambda>tenantID sourceNodeID targetNodeID relType opts tb. (Inl not_found, tb))))
        ''t1'' ''r1'' '''' ''''
        (([''r1'' \<mapsto> \<lparr>ID = ''r1'', TenantID = ''t1'', SourceNodeID = ''n1'', TargetNodeID = ''n2'',
                       RelationshipType = ''knows'', Data = '''', CreatedAt = 10, UpdatedAt = 20\<rparr>,
          ''r2'' \<mapsto> \<lparr>ID = ''r2'', TenantID = ''t1'', SourceNodeID = ''n2'', TargetNodeID = ''n1'',
                       RelationshipType = ''knows'', Data = ''{}'', CreatedAt = 11, UpdatedAt = 11\<rparr>],
          100), [])))
     = [Call_GetByID ''t1'' ''r1'',
        Call_Update \<lparr>ID = ''r1'', TenantID = ''t1'', SourceNodeID = ''n1'', TargetNodeID = ''n2'',
                     RelationshipType = ''knows'', Data = '''', CreatedAt = 10, UpdatedAt = 20\<rparr>]
   \<and> fst (snd (RelationshipService_Update
        (table_repo (\<lambda>rel tb. (Inl not_found, tb)) (\<lambda>tenantID id' tb. (Some not_found, tb))
           (\<lambda>tenantID sourceNodeID targetNodeID relType opts tb. (Inl not_found, tb)))
        ''t1'' ''r1'' '''' ''''
        ([''r1'' \<mapsto> \<lparr>ID = ''r1'', TenantID = ''t1'', SourceNodeID = ''n1'', TargetNodeID = ''n2'',
                       RelationshipType = ''knows'', Data = '''', CreatedAt = 10, UpdatedAt = 20\<rparr>,
          ''r2'' \<mapsto> \<lparr>ID = ''r2'', TenantID = ''t1'', SourceNodeID = ''n2'', TargetNodeID = ''n1'',
                       RelationshipType = ''knows'', Data = ''{}'', CreatedAt = 11, UpdatedAt = 11\<rparr>],
         100))) ''r1''
     = Some \<lparr>ID = ''r1'', TenantID = ''t1'', SourceNodeID = ''n1'', TargetNodeID = ''n2'',
              RelationshipType = ''knows'', Data = '''', CreatedAt = 10, UpdatedAt = 100\<rparr>
   \<and> fst (snd (RelationshipService_Update
        (table_repo (\<lambda>rel tb. (Inl not_found, tb)) (\<lambda>tenantID id' tb. (Some not_found, tb))
           (\<lambda>tenantID sourceNodeID targetNodeID relType opts tb. (Inl not_found, tb)))
        ''t1'' ''r1'' ''likes'' ''''
        ([''r1'' \<mapsto> \<lparr>ID = ''r1'', TenantID = ''t1'', SourceNodeID = ''n1'', TargetNodeID = ''n2'',
                       RelationshipType = ''knows'', Data = '''', CreatedAt = 10, UpdatedAt = 20\<rparr>,
          ''r2'' \<mapsto> \<lparr>ID = ''r2'', TenantID = ''t1'', SourceNodeID = ''n2'', TargetNodeID = ''n1'',
                       RelationshipType = ''knows'', Data = ''{}'', CreatedAt = 11, UpdatedAt = 11\<rparr>],
         100))) ''r1''
     = Some \<lparr>ID = ''r1'', TenantID = ''t1'', SourceNodeID = ''n1'', TargetNodeID = ''n2'',
              RelationshipType = ''likes'', Data = '''', CreatedAt = 10, UpdatedAt = 100\<rparr>
   \<and> fst (snd (RelationshipService_Update
        (table_repo (\<lambda>rel tb. (Inl not_found, tb)) (\<lambda>tenantID id' tb. (Some not_found, tb))
           (\<lambda>tenantID sourceNodeID targetNodeID relType opts tb. (Inl not_found, tb)))
        ''t1'' ''r1'' ''likes'' ''''
        ([''r1'' \<mapsto> \<lparr>ID = ''r1'', TenantID = ''t1'', SourceNodeID = ''n1'', TargetNodeID = ''n2'',
                       RelationshipType = ''knows'', Data = '''', CreatedAt = 10, UpdatedAt = 20\<rparr>,
          ''r2'' \<mapsto> \<lparr>ID = ''r2'', TenantID = ''t1'', SourceNodeID = ''n2'', TargetNodeID = ''n1'',
                       RelationshipType = ''knows'', Data = ''{}'', CreatedAt = 11, UpdatedAt = 11\<rparr>],
         100))) ''r2''
     = Some \<lparr>ID = ''r2'', TenantID = ''t1'', SourceNodeID = ''n2'', TargetNodeID = ''n1'',
              RelationshipType = ''knows'', Data = ''{}'', CreatedAt = 11, UpdatedAt = 11\<rparr>"
proof -
  let ?repo = "table_repo (\<lambda>rel tb. (Inl not_found, tb)) (\<lambda>tenantID id' tb. (Some not_found, tb))
                 (\<lambda>tenantID sourceNodeID targetNodeID relType opts tb. (Inl not_found, tb))"
  let ?row = "\<lparr>ID = ''r1'', TenantID = ''t1'', SourceNodeID = ''n1'', TargetNodeID = ''n2'',
               RelationshipType = ''knows'', Data = '''', CreatedAt = 10, UpdatedAt = 20\<rparr>"
  let ?other = "\<lparr>ID = ''r2'', TenantID = ''t1'', SourceNodeID = ''n2'', TargetNodeID = ''n1'',
                 RelationshipType = ''knows'', Data = ''{}'', CreatedAt = 11, UpdatedAt = 11\<rparr>"
  let ?rows = "[''r1'' \<mapsto> ?row, ''r2'' \<mapsto> ?other]"
  have h1: "''r1'' \<noteq> ''''" and h2: "''t1'' \<noteq> ''''" by simp_all
  have h4: "?rows ''r1'' = Some ?row" by simp
  have h5: "row_matches ''t1'' ''r1'' ?row" by (simp add: row_matches_def)
  have h3: "repo_GetByID ?repo ''t1'' ''r1'' (?rows, 100) = (Inr ?row, (?rows, 100))"
    using h5 by (simp add: table_repo_def table_GetByID_def)
  note u = RelationshipService_Update_partial [where rows = "?rows" and relType = "''likes''"
             and data = "''''" and calls = "[]" and now = 100
             and create = "\<lambda>rel tb. (Inl not_found, tb)"
             and delete = "\<lambda>tenantID id' tb. (Some not_found, tb)"
             and list = "\<lambda>tenantID sourceNodeID targetNodeID relType opts tb. (Inl not_found, tb)",
             OF h1 h2 h3 h4 h5]
  from u h3 h5 show ?thesis
    by (simp add: table_repo_def table_Update_def overwrite_def Let_def)
qed

text \<open>
  Claim C7. For every \<open>Update\<close> request naming a relationship that does not exist (the
  repository's \<open>GetByID\<close> returns an error for it), \<open>Update\<close> returns an error and never
  invokes the repository's \<open>Update\<close>: the only call it may make is \<open>GetByID\<close>. When
  \<open>id\<close> and \<open>tenant_id\<close> are given, the error returned is the one \<open>GetByID\<close> returned
  (NotFound when the row is absent), exactly one call, \<open>GetByID\<close>, is made, and the storage
  state is the one \<open>GetByID\<close> left.
\<close>

theorem RelationshipService_Update_missing:
  assumes "repo_GetByID repo tenantID id' st = (Inl err, st1)"
  shows "(id' \<noteq> '''' \<and> tenantID \<noteq> '''' \<longrightarrow>
            RelationshipService_Update (recording repo) tenantID id' relType data (st, calls)
              = (Inl err, (st1, calls @ [Call_GetByID tenantID id'])))
       \<and> (\<exists>e. fst (RelationshipService_Update (recording repo) tenantID id' relType data (st, calls))
                 = Inl e)
       \<and> (snd (snd (RelationshipService_Update (recording repo) tenantID id' relType data
                      (st, calls))) = calls
          \<or> snd (snd (RelationshipService_Update (recording repo) tenantID id' relType data
                      (st, calls))) = calls @ [Call_GetByID tenantID id'])"
  using assms by (simp add: RelationshipService_Update_def recording_simps)

text \<open>On the one-row repository, an update of an absent id fails with NotFound and leaves the row alone.\<close>

theorem RelationshipService_Update_missing_witness:
  "repo_GetByID one_row_repo ''t1'' ''r9''
     (Some \<lparr>ID = ''r1'', TenantID = ''t1'', SourceNodeID = ''n1'', TargetNodeID = ''n2'',
             RelationshipType = ''knows'', Data = ''{}'', CreatedAt = 10, UpdatedAt = 20\<rparr>, 100)
   = (Inl not_found,
      (Some \<lparr>ID = ''r1'', TenantID = ''t1'', SourceNodeID = ''n1'', TargetNodeID = ''n2'',
              RelationshipType = ''knows'', Data = ''{}'', CreatedAt = 10, UpdatedAt = 20\<rparr>, 100))
   \<and> RelationshipService_Update (recording one_row_repo) ''t1'' ''r9'' ''likes'' ''{}''
       ((Some \<lparr>ID = ''r1'', TenantID = ''t1'', SourceNodeID = ''n1'', TargetNodeID = ''n2'',
                RelationshipType = ''knows'', Data = ''{}'', CreatedAt = 10, UpdatedAt = 20\<rparr>, 100),
        [])
     = (Inl not_found,
        ((Some \<lparr>ID = ''r1'', TenantID = ''t1'', SourceNodeID = ''n1'', TargetNodeID = ''n2'',
                 RelationshipType = ''knows'', Data = ''{}'', CreatedAt = 10, UpdatedAt = 20\<rparr>,
          100),
         [Call_GetByID ''t1'' ''r9'']))
   \<and> mapError (Some not_found) = Some \<lparr>Code = NotFound, Message = ''relationship not found''\<rparr>"
proof -
  let ?row = "\<lparr>ID = ''r1'', TenantID = ''t1'', SourceNodeID = ''n1'', TargetNodeID = ''n2'',
               RelationshipType = ''knows'', Data = ''{}'', CreatedAt = 10, UpdatedAt = 20\<rparr>"
  have h: "repo_GetByID one_row_repo ''t1'' ''r9'' (Some ?row, 100)
             = (Inl not_found, (Some ?row, 100))"
    by (simp add: one_row_repo_def row_matches_def)
  note u = RelationshipService_Update_missing [OF h, where relType = "''likes''"
             and data = "''{}''" and calls = "[]"]
  have m: "mapError (Some not_found) = Some \<lparr>Code = NotFound, Message = ''relationship not found''\<rparr>"
    by (simp add: mapError_Some not_found_def status_Error_def)
  from u h m show ?thesis by simp
qed

section \<open>The page size of \<open>ListTenants\<close>\<close>

lemma recording_svc_List:
  "svc_List (recording_svc svc) pageSize pageToken (st, calls) =
     (case svc_List svc pageSize pageToken st of
        (r, st1) \<Rightarrow> (r, (st1, calls @ [Svc_List pageSize pageToken])))"
  by (simp add: recording_svc_def)

text \<open>\<open>ListTenants\<close> makes one call of the service, \<open>List\<close>, with these arguments.\<close>

lemma ListTenants_calls:
  "snd (snd (ListTenants (recording_svc svc) req (st, calls))) =
     calls @ [Svc_List
       (case Pagination req of
          None \<Rightarrow> 10
        | Some p \<Rightarrow> if 0 < sint (pagination_PageSize p) then pagination_PageSize p else 10)
       (case Pagination req of None \<Rightarrow> '''' | Some p \<Rightarrow> pagination_PageToken p)]"
  by (simp add: ListTenants_def recording_svc_List split: option.splits prod.splits sum.splits)

text \<open>
  Claim C5. For every \<open>ListTenants\<close> request whose pagination is absent, or whose page
  size is zero or negative, the service's \<open>List\<close> is called with the default page size
  10; for every request with a positive page size \<open>n\<close> it is called with exactly \<open>n\<close>.
\<close>

theorem ListTenants_page_size:
  "snd (snd (ListTenants (recording_svc svc) \<lparr>Pagination = None\<rparr> (st, calls)))
     = calls @ [Svc_List 10 '''']
   \<and> (sint n \<le> 0 \<longrightarrow>
        snd (snd (ListTenants (recording_svc svc)
          \<lparr>Pagination = Some \<lparr>pagination_PageSize = n, pagination_PageToken = tok\<rparr>\<rparr> (st, calls)))
        = calls @ [Svc_List 10 tok])
   \<and> (0 < sint n \<longrightarrow>
        snd (snd (ListTenants (recording_svc svc)
          \<lparr>Pagination = Some \<lparr>pagination_PageSize = n, pagination_PageToken = tok\<rparr>\<rparr> (st, calls)))
        = calls @ [Svc_List n tok])"
  by (simp add: ListTenants_calls)

theorem ListTenants_page_size_witness:
  "sint (0 :: int32) \<le> 0 \<and> sint (- 5 :: int32) \<le> 0 \<and> 0 < sint (25 :: int32)
   \<and> snd (snd (ListTenants (recording_svc (canned_svc (Inl not_found)))
        \<lparr>Pagination = None\<rparr> ((), []))) = [Svc_List 10 '''']
   \<and> snd (snd (ListTenants (recording_svc (canned_svc (Inl not_found)))
        \<lparr>Pagination = Some \<lparr>pagination_PageSize = 0, pagination_PageToken = ''tok''\<rparr>\<rparr>
        ((), []))) = [Svc_List 10 ''tok'']
   \<and> snd (snd (ListTenants (recording_svc (canned_svc (Inl not_found)))
        \<lparr>Pagination = Some \<lparr>pagination_PageSize = - 5, pagination_PageToken = ''tok''\<rparr>\<rparr>
        ((), []))) = [Svc_List 10 ''tok'']
   \<and> snd (snd (ListTenants (recording_svc (canned_svc (Inl not_found)))
        \<lparr>Pagination = Some \<lparr>pagination_PageSize = 25, pagination_PageToken = ''tok''\<rparr>\<rparr>
        ((), []))) = [Svc_List 25 ''tok'']"
proof -
  have z: "sint (0 :: int32) \<le> 0" and m: "sint (- 5 :: int32) \<le> 0" and p: "0 < sint (25 :: int32)"
    by simp_all
  note a = ListTenants_page_size [where n = 0 and tok = "''tok''" and calls = "[]"
             and svc = "canned_svc (Inl not_found)" and st = "()"]
  note b = ListTenants_page_size [where n = "- 5" and tok = "''tok''" and calls = "[]"
             and svc = "canned_svc (Inl not_found)" and st = "()"]
  note c = ListTenants_page_size [where n = 25 and tok = "''tok''" and calls = "[]"
             and svc = "canned_svc (Inl not_found)" and st = "()"]
  from a b c z m p show ?thesis by simp
qed

text \<open>
  Claim C10. \<open>ListTenants\<close> applies no maximum to the page size: for every positive
  requested page size \<open>n\<close>, however large, the handler's answer is computed from the
  service's \<open>List\<close> called with \<open>n\<close> itself, and \<open>n\<close> is the page size the service receives.
\<close>

theorem ListTenants_no_page_size_cap:
  "0 < sint n \<Longrightarrow>
     ListTenants svc \<lparr>Pagination = Some \<lparr>pagination_PageSize = n, pagination_PageToken = tok\<rparr>\<rparr> st
       = (case svc_List svc n tok st of
            (Inl err, st1) \<Rightarrow> (map_option Inl (mapError (Some err)), st1)
          | (Inr (tenants, result), st1) \<Rightarrow>
              (Some (Inr \<lparr>Tenants = map tenantToProto tenants,
                          response_Pagination =
                            \<lparr>response_NextPageToken = NextPageToken result,
                             response_TotalCount = ucast (TotalCount result)\<rparr>\<rparr>), st1))
     \<and> snd (snd (ListTenants (recording_svc svc)
          \<lparr>Pagination = Some \<lparr>pagination_PageSize = n, pagination_PageToken = tok\<rparr>\<rparr> (st, calls)))
        = calls @ [Svc_List n tok]"
  by (simp add: ListTenants_calls) (simp add: ListTenants_def)

text \<open>The largest \<open>int32\<close> is forwarded as it is.\<close>

theorem ListTenants_no_page_size_cap_witness:
  "0 < sint (2147483647 :: int32)
   \<and> snd (snd (ListTenants (recording_svc (canned_svc (Inl not_found)))
        \<lparr>Pagination = Some \<lparr>pagination_PageSize = 2147483647, pagination_PageToken = ''''\<rparr>\<rparr>
        ((), []))) = [Svc_List 2147483647 '''']"
proof -
  have h: "0 < sint (2147483647 :: int32)" by simp
  from ListTenants_no_page_size_cap [OF h, where tok = "''''" and calls = "[]"
         and svc = "canned_svc (Inl not_found)" and st = "()"] h
  show ?thesis by simp
qed

end
